theory Spec2Isabelle
  imports Complex_Main "HOL-Library.Sublist"
begin

section \<open>IMG Restore: the state and handlers of the App component\<close>

text \<open>
  The component \<open>App\<close> of \<open>src/App.tsx\<close> keeps its state in nine \<open>useState\<close> cells and
  changes it in four handlers (\<open>handleDownload\<close> writes no cell). Each of the four is modelled as a function from the state before
  to the state after; a handler that hands work to the outside (the file reader, the remote
  model) also returns what it hands over, and the continuation that runs when the outside
  answers is a function of its own. Handlers read the cells as of the call, which is what
  the closure of the latest render holds.
\<close>

subsection \<open>JavaScript values\<close>

text \<open>
  A JavaScript number is modelled as a real or one of the three special values of IEEE
  arithmetic; rounding of finite results is not modelled. The operands of the source's one
  subtraction are finite (pixel coordinates), so only division, multiplication,
  \<open>Math.max\<close> and \<open>Math.min\<close> are defined on the special values.
\<close>

datatype jsnum = Num real | PosInf | NegInf | NaN

definition js_div :: "real \<Rightarrow> real \<Rightarrow> jsnum" where
  \<comment> \<open>\<open>a / b\<close> for finite \<open>a\<close> and finite \<open>b\<close>, a zero \<open>b\<close> being \<open>+0\<close> (a width)\<close>
  "js_div a b =
     (if b \<noteq> 0 then Num (a / b)
      else if 0 < a then PosInf
      else if a < 0 then NegInf
      else NaN)"

definition js_mul :: "jsnum \<Rightarrow> real \<Rightarrow> jsnum" where
  \<comment> \<open>\<open>n * c\<close> for a finite \<open>c\<close>\<close>
  "js_mul n c =
     (case n of
        Num a \<Rightarrow> Num (a * c)
      | PosInf \<Rightarrow> (if 0 < c then PosInf else if c < 0 then NegInf else NaN)
      | NegInf \<Rightarrow> (if 0 < c then NegInf else if c < 0 then PosInf else NaN)
      | NaN \<Rightarrow> NaN)"

fun js_max :: "jsnum \<Rightarrow> jsnum \<Rightarrow> jsnum" where
  "js_max NaN b = NaN"
| "js_max a NaN = NaN"
| "js_max PosInf b = PosInf"
| "js_max a PosInf = PosInf"
| "js_max NegInf b = b"
| "js_max a NegInf = a"
| "js_max (Num a) (Num b) = Num (max a b)"

fun js_min :: "jsnum \<Rightarrow> jsnum \<Rightarrow> jsnum" where
  "js_min NaN b = NaN"
| "js_min a NaN = NaN"
| "js_min NegInf b = NegInf"
| "js_min a NegInf = NegInf"
| "js_min PosInf b = b"
| "js_min a PosInf = a"
| "js_min (Num a) (Num b) = Num (min a b)"

text \<open>
  Strings are byte lists; the characters of the source's messages outside ASCII are written
  as their UTF-8 bytes. A cell of type \<open>string | null\<close> is a \<open>string option\<close>, and
  \<open>!v\<close> holds of \<open>null\<close> and of the empty string.
\<close>

definition js_truthy :: "string option \<Rightarrow> bool" where
  "js_truthy v = (case v of None \<Rightarrow> False | Some t \<Rightarrow> t \<noteq> [])"

fun js_split :: "char \<Rightarrow> string \<Rightarrow> string list" where
  \<comment> \<open>\<open>s.split(c)\<close> for a separator of one character\<close>
  "js_split c [] = [[]]"
| "js_split c (x # xs) =
     (if x = c then [] # js_split c xs
      else (case js_split c xs of
              [] \<Rightarrow> [[x]]
            | y # ys \<Rightarrow> (x # y) # ys))"

definition js_index :: "'a list \<Rightarrow> nat \<Rightarrow> 'a option" where
  \<comment> \<open>\<open>xs[i]\<close>, \<open>undefined\<close> out of range\<close>
  "js_index xs i = (if i < length xs then Some (xs ! i) else None)"

definition js_string :: "string option \<Rightarrow> string" where
  \<comment> \<open>a possibly undefined value interpolated in a template literal\<close>
  "js_string v = (case v of None \<Rightarrow> ''undefined'' | Some t \<Rightarrow> t)"

subsection \<open>The state\<close>

datatype quality = Standard | High | Ultra

datatype artStyle = Realistic | OilPainting

record app_state =
  originalImage :: "string option"
  restoredImage :: "string option"
  isProcessing :: bool
  error :: "string option"
  sliderPosition :: jsnum
  quality :: quality
  isColorized :: bool
  artStyle :: artStyle
  isDragging :: bool

definition initial_state :: app_state where
  "initial_state =
     \<lparr> originalImage = None, restoredImage = None, isProcessing = False, error = None,
       sliderPosition = Num 50, quality = Standard, isColorized = True,
       artStyle = Realistic, isDragging = False \<rparr>"

subsection \<open>handleFileUpload\<close>

record upload_file =
  file_size :: nat

definition tooLargeMessage :: string where
  "tooLargeMessage =
     ''File qu'' @ [CHR 0xC3, CHR 0xA1] @ '' l'' @ [CHR 0xE1, CHR 0xBB, CHR 0x9B]
     @ ''n. Vui l'' @ [CHR 0xC3, CHR 0xB2] @ ''ng ch'' @ [CHR 0xE1, CHR 0xBB, CHR 0x8D]
     @ ''n '' @ [CHR 0xE1, CHR 0xBA, CHR 0xA3] @ ''nh d'' @ [CHR 0xC6, CHR 0xB0]
     @ [CHR 0xE1, CHR 0xBB, CHR 0x9B] @ ''i 10MB.''"

definition handleFileUpload :: "upload_file option \<Rightarrow> app_state \<Rightarrow> app_state \<times> upload_file option" where
  \<comment> \<open>the argument is \<open>e.target.files?.[0]\<close>; the second result is the file given to
      \<open>reader.readAsDataURL\<close>, if any\<close>
  "handleFileUpload file s =
     (case file of
        None \<Rightarrow> (s, None)
      | Some f \<Rightarrow>
          (if file_size f > 10 * 1024 * 1024
           then (s\<lparr>error := Some tooLargeMessage\<rparr>, None)
           else (s, Some f)))"

definition reader_onload :: "string option \<Rightarrow> app_state \<Rightarrow> app_state" where
  \<comment> \<open>the argument is \<open>event.target?.result\<close>\<close>
  "reader_onload result s =
     s\<lparr>originalImage := result, restoredImage := None, error := None\<rparr>"

subsection \<open>The prompt\<close>

definition GEMINI_MODEL :: string where
  "GEMINI_MODEL = ''gemini-2.5-flash-image''"

definition colorInstruction :: "bool \<Rightarrow> string" where
  "colorInstruction colorized =
     (if colorized
      then ''Colorize it with natural skin tones and realistic colors.''
      else ''Keep the photo in its original black and white or grayscale tones. Do not add any new colors.'')"

definition styleInstruction :: "artStyle \<Rightarrow> string" where
  "styleInstruction st =
     (if st = OilPainting
      then ''Transform this photo into a beautiful oil painting. Use rich textures, visible brushstrokes, and vibrant colors typical of a classic oil on canvas masterpiece. Maintain the composition but render it in an artistic, painterly style.''
      else [])"

definition preservationInstruction :: string where
  "preservationInstruction =
     ''Strictly preserve the original facial features, head shape, hair texture, and shoulder lines. Do not alter the person'' @ [CHR 0x27] @ ''s identity or physical structure.''"

definition prompt :: "quality \<Rightarrow> bool \<Rightarrow> artStyle \<Rightarrow> string" where
  \<comment> \<open>the three template literals of \<open>handleRestore\<close>\<close>
  "prompt q colorized st =
     (if q = Standard then
        ''Restore this old photo, remove scratches, noise, and damage. ''
        @ colorInstruction colorized @ '' '' @ styleInstruction st @ '' ''
        @ preservationInstruction
        @ '' High quality, sharp details, professional restoration.''
      else if q = High then
        ''Restore this old photo with maximum detail, remove all scratches, noise, and damage. ''
        @ colorInstruction colorized @ '' '' @ styleInstruction st @ '' ''
        @ preservationInstruction
        @ '' High quality, sharp details, professional restoration.''
      else if q = Ultra then
        ''Perform an ultra-high-definition restoration of this old photograph. Meticulously remove every scratch, dust particle, and blemish. Reconstruct missing details with AI precision. ''
        @ (if colorized
           then ''Apply sophisticated colorization with multi-layered skin tones, realistic textures, and cinematic color grading.''
           else ''Maintain the original black and white aesthetic with enhanced contrast and clarity.'')
        @ '' '' @ styleInstruction st @ '' ''
        @ preservationInstruction
        @ '' The output must be sharp, noise-free, and look like a modern high-resolution photograph while preserving the original essence.''
      else [])"

subsection \<open>handleRestore\<close>

record Blob =
  data :: "string option"
  mimeType :: "string option"

record Part =
  inlineData :: "Blob option"
  part_text :: "string option"

record Content =
  parts :: "Part list option"

record Candidate =
  content :: "Content option"

record GenerateContentResponse =
  candidates :: "Candidate list option"

record request =
  model :: string
  contents :: "Part list"

datatype thrown = ThrownNullish | ThrownError "string option"
  \<comment> \<open>what a \<open>catch\<close> receives: \<open>null\<close> or \<open>undefined\<close>, or a value whose \<open>message\<close>
      is the argument\<close>

datatype outcome = Rejected thrown | Fulfilled GenerateContentResponse
  \<comment> \<open>how the awaited \<open>generateContent\<close> call ends\<close>

definition noImageMessage :: string where
  "noImageMessage =
     ''Kh'' @ [CHR 0xC3, CHR 0xB4] @ ''ng nh'' @ [CHR 0xE1, CHR 0xBA, CHR 0xAD] @ ''n ''
     @ [CHR 0xC4, CHR 0x91] @ [CHR 0xC6, CHR 0xB0] @ [CHR 0xE1, CHR 0xBB, CHR 0xA3] @ ''c ''
     @ [CHR 0xE1, CHR 0xBA, CHR 0xA3] @ ''nh k'' @ [CHR 0xE1, CHR 0xBA, CHR 0xBF] @ ''t qu''
     @ [CHR 0xE1, CHR 0xBA, CHR 0xA3] @ '' t'' @ [CHR 0xE1, CHR 0xBB, CHR 0xAB] @ '' AI.''"

definition defaultErrorMessage :: string where
  "defaultErrorMessage =
     [CHR 0xC4, CHR 0x90] @ [CHR 0xC3, CHR 0xA3] @ '' c'' @ [CHR 0xC3, CHR 0xB3] @ '' l''
     @ [CHR 0xE1, CHR 0xBB, CHR 0x97] @ ''i x'' @ [CHR 0xE1, CHR 0xBA, CHR 0xA3]
     @ ''y ra trong qu'' @ [CHR 0xC3, CHR 0xA1] @ '' tr'' @ [CHR 0xC3, CHR 0xAC] @ ''nh x''
     @ [CHR 0xE1, CHR 0xBB, CHR 0xAD] @ '' l'' @ [CHR 0xC3, CHR 0xBD] @ ''.''"

definition base64Data :: "string \<Rightarrow> string option" where
  \<comment> \<open>\<open>originalImage.split(',')[1]\<close>\<close>
  "base64Data img = js_index (js_split (CHR '','') img) 1"

definition mimeTypeOf :: "string \<Rightarrow> string option" where
  \<comment> \<open>\<open>originalImage.split(';')[0].split(':')[1]\<close>\<close>
  "mimeTypeOf img =
     (case js_split (CHR '';'') img of
        [] \<Rightarrow> None
      | h # _ \<Rightarrow> js_index (js_split (CHR '':'') h) 1)"

definition restore_request :: "string \<Rightarrow> app_state \<Rightarrow> request" where
  "restore_request img s =
     \<lparr> model = GEMINI_MODEL,
       contents =
         [ \<lparr> inlineData = Some \<lparr> data = base64Data img, mimeType = mimeTypeOf img \<rparr>,
             part_text = None \<rparr>,
           \<lparr> inlineData = None,
             part_text = Some (prompt (quality s) (isColorized s) (artStyle s)) \<rparr> ] \<rparr>"

definition response_parts :: "GenerateContentResponse \<Rightarrow> Part list" where
  \<comment> \<open>\<open>response.candidates?.[0]?.content?.parts || []\<close>\<close>
  "response_parts r =
     (case candidates r of
        None \<Rightarrow> []
      | Some [] \<Rightarrow> []
      | Some (c # _) \<Rightarrow>
          (case content c of
             None \<Rightarrow> []
           | Some ct \<Rightarrow> (case parts ct of None \<Rightarrow> [] | Some ps \<Rightarrow> ps)))"

fun scan_parts :: "Part list \<Rightarrow> app_state \<Rightarrow> app_state \<times> bool" where
  \<comment> \<open>the \<open>for\<close> loop over the parts; the second result is \<open>foundImage\<close>\<close>
  "scan_parts [] s = (s, False)"
| "scan_parts (p # ps) s =
     (case inlineData p of
        Some b \<Rightarrow> (s\<lparr>restoredImage := Some (''data:image/png;base64,'' @ js_string (data b))\<rparr>, True)
      | None \<Rightarrow> scan_parts ps s)"

definition catch_block :: "thrown \<Rightarrow> app_state \<Rightarrow> app_state" where
  \<comment> \<open>\<open>setError(err.message || default)\<close>; reading \<open>message\<close> of \<open>null\<close> throws
      before \<open>setError\<close> is reached\<close>
  "catch_block e s =
     (case e of
        ThrownNullish \<Rightarrow> s
      | ThrownError m \<Rightarrow>
          s\<lparr>error := Some (if js_truthy m then js_string m else defaultErrorMessage)\<rparr>)"

definition finally_block :: "app_state \<Rightarrow> app_state" where
  "finally_block s = s\<lparr>isProcessing := False\<rparr>"

definition handleRestore_begin :: "thrown option \<Rightarrow> app_state \<Rightarrow> app_state \<times> request option" where
  \<comment> \<open>\<open>handleRestore\<close> up to its \<open>await\<close>. The first argument is what
      \<open>new GoogleGenAI(...)\<close>, the first statement of the \<open>try\<close>, throws, \<open>None\<close> when
      it returns a client; the second result is the \<open>generateContent\<close> call made, if any\<close>
  "handleRestore_begin ctor s =
     (case originalImage s of
        None \<Rightarrow> (s, None)
      | Some img \<Rightarrow>
          (if img = [] then (s, None)
           else (case ctor of
                   Some e \<Rightarrow>
                     (finally_block (catch_block e (s\<lparr>isProcessing := True, error := None\<rparr>)),
                      None)
                 | None \<Rightarrow>
                     (s\<lparr>isProcessing := True, error := None\<rparr>,
                      Some (restore_request img s)))))"

definition handleRestore_settle :: "outcome \<Rightarrow> app_state \<Rightarrow> app_state" where
  \<comment> \<open>\<open>handleRestore\<close> from its \<open>await\<close> on, run on the state of that moment\<close>
  "handleRestore_settle out s =
     finally_block
       (case out of
          Rejected e \<Rightarrow> catch_block e s
        | Fulfilled r \<Rightarrow>
            (case scan_parts (response_parts r) s of
               (s', found) \<Rightarrow>
                 if \<not> found then catch_block (ThrownError (Some noImageMessage)) s' else s'))"

definition handleRestore :: "thrown option \<Rightarrow> app_state \<Rightarrow> outcome \<Rightarrow> app_state" where
  \<comment> \<open>one whole invocation with nothing else happening during the \<open>await\<close>\<close>
  "handleRestore ctor s out =
     (case handleRestore_begin ctor s of
        (s', None) \<Rightarrow> s'
      | (s', Some req) \<Rightarrow> handleRestore_settle out s')"

subsection \<open>handleReset\<close>

definition handleReset :: "app_state \<Rightarrow> app_state" where
  "handleReset s =
     s\<lparr>originalImage := None, restoredImage := None, error := None, sliderPosition := Num 50\<rparr>"

subsection \<open>onMouseMove\<close>

record rect =
  left :: real
  width :: real

datatype move_event = MouseMove real | TouchMove "real list"
  \<comment> \<open>\<open>clientX\<close> of a mouse event; \<open>clientX\<close> of each entry of \<open>e.touches\<close>\<close>

datatype js_error = TypeError

definition event_x :: "move_event \<Rightarrow> js_error + real" where
  \<comment> \<open>\<open>'touches' in e ? e.touches[0].clientX : e.clientX\<close>\<close>
  "event_x e =
     (case e of
        MouseMove x \<Rightarrow> Inr x
      | TouchMove [] \<Rightarrow> Inl TypeError
      | TouchMove (x # _) \<Rightarrow> Inr x)"

definition slider_position :: "real \<Rightarrow> rect \<Rightarrow> jsnum" where
  \<comment> \<open>\<open>Math.min(Math.max(((x - rect.left) / rect.width) * 100, 0), 100)\<close>\<close>
  "slider_position x r =
     js_min (js_max (js_mul (js_div (x - left r) (width r)) 100) (Num 0)) (Num 100)"

definition onMouseMove :: "move_event \<Rightarrow> rect option \<Rightarrow> app_state \<Rightarrow> js_error + app_state" where
  \<comment> \<open>the second argument is the bounding rectangle of \<open>containerRef.current\<close>,
      \<open>None\<close> when the reference is \<open>null\<close>\<close>
  "onMouseMove e container s =
     (if \<not> isDragging s \<or> container = None then Inr s
      else (case container of
              None \<Rightarrow> Inr s
            | Some r \<Rightarrow>
                (case event_x e of
                   Inl err \<Rightarrow> Inl err
                 | Inr x \<Rightarrow> Inr (s\<lparr>sliderPosition := slider_position x r\<rparr>))))"

subsection \<open>The buttons\<close>

text \<open>
  The render shows the upload area when \<open>!originalImage\<close> and the preview otherwise. In
  the preview, both buttons bound to \<open>handleRestore\<close> carry \<open>disabled={isProcessing}\<close>;
  the button bound to \<open>handleReset\<close> is rendered when \<open>restoredImage\<close> is set and carries
  the same attribute. A click on a button that is absent or disabled calls no handler.
\<close>

definition upload_view :: "app_state \<Rightarrow> bool" where
  \<comment> \<open>the render's test \<open>!originalImage\<close>: the upload area is shown, nothing of the preview\<close>
  "upload_view s = (\<not> js_truthy (originalImage s))"

definition click_restore :: "thrown option \<Rightarrow> app_state \<Rightarrow> app_state \<times> request option" where
  "click_restore ctor s =
     (if \<not> upload_view s \<and> \<not> isProcessing s
      then handleRestore_begin ctor s
      else (s, None))"

definition click_reset :: "app_state \<Rightarrow> app_state" where
  "click_reset s =
     (if \<not> upload_view s \<and> js_truthy (restoredImage s) \<and> \<not> isProcessing s
      then handleReset s
      else s)"

subsection \<open>The fragments of the prompt\<close>

text \<open>
  The three template literals share one shape. These are their pieces, cut at the
  interpolations, and \<open>Array.prototype.join\<close> with a one-space separator to put
  them together again.
\<close>

definition openingFragment :: "quality \<Rightarrow> string" where
  "openingFragment q =
     (case q of
        Standard \<Rightarrow> ''Restore this old photo, remove scratches, noise, and damage.''
      | High \<Rightarrow> ''Restore this old photo with maximum detail, remove all scratches, noise, and damage.''
      | Ultra \<Rightarrow> ''Perform an ultra-high-definition restoration of this old photograph. Meticulously remove every scratch, dust particle, and blemish. Reconstruct missing details with AI precision.'')"

definition colorFragment :: "quality \<Rightarrow> bool \<Rightarrow> string" where
  "colorFragment q colorized =
     (case q of
        Ultra \<Rightarrow>
          (if colorized
           then ''Apply sophisticated colorization with multi-layered skin tones, realistic textures, and cinematic color grading.''
           else ''Maintain the original black and white aesthetic with enhanced contrast and clarity.'')
      | _ \<Rightarrow> colorInstruction colorized)"

definition closingFragment :: "quality \<Rightarrow> string" where
  "closingFragment q =
     (case q of
        Ultra \<Rightarrow> ''The output must be sharp, noise-free, and look like a modern high-resolution photograph while preserving the original essence.''
      | _ \<Rightarrow> ''High quality, sharp details, professional restoration.'')"

definition join_spaces :: "string list \<Rightarrow> string" where
  "join_spaces xs =
     (case xs of [] \<Rightarrow> [] | y # ys \<Rightarrow> foldl (\<lambda>acc z. acc @ '' '' @ z) y ys)"

subsection \<open>Concrete states and responses\<close>

definition example_image :: string where
  "example_image = ''data:image/jpeg;base64,QUJD''"

definition loaded_state :: app_state where
  "loaded_state = initial_state\<lparr>originalImage := Some example_image\<rparr>"

definition processing_state :: app_state where
  "processing_state = loaded_state\<lparr>isProcessing := True\<rparr>"

definition dragging_state :: app_state where
  "dragging_state =
     loaded_state\<lparr>restoredImage := Some ''data:image/png;base64,WFla'', isDragging := True\<rparr>"

definition image_part :: "string \<Rightarrow> Part" where
  "image_part d =
     \<lparr> inlineData = Some \<lparr> data = Some d, mimeType = Some ''image/jpeg'' \<rparr>, part_text = None \<rparr>"

definition text_part :: "string \<Rightarrow> Part" where
  "text_part t = \<lparr> inlineData = None, part_text = Some t \<rparr>"

definition response_of :: "Part list \<Rightarrow> GenerateContentResponse" where
  "response_of ps = \<lparr> candidates = Some [\<lparr> content = Some \<lparr> parts = Some ps \<rparr> \<rparr>] \<rparr>"

definition candidate_of :: "Part list \<Rightarrow> Candidate" where
  "candidate_of ps = \<lparr> content = Some \<lparr> parts = Some ps \<rparr> \<rparr>"

definition later_image_response :: GenerateContentResponse where
  \<comment> \<open>two candidates: the first with a text part only, the second with an image part\<close>
  "later_image_response =
     \<lparr> candidates = Some [candidate_of [text_part ''done''], candidate_of [image_part ''QUJD'']] \<rparr>"

section \<open>Properties\<close>

subsection \<open>Auxiliary facts\<close>

lemma scan_parts_first:
  "\<forall>q\<in>set pre. inlineData q = None \<Longrightarrow> inlineData p = Some b \<Longrightarrow>
   scan_parts (pre @ p # post) s =
     (s\<lparr>restoredImage := Some (''data:image/png;base64,'' @ js_string (data b))\<rparr>, True)"
  by (induction pre) simp_all

lemma scan_parts_none:
  "\<forall>q\<in>set ps. inlineData q = None \<Longrightarrow> scan_parts ps s = (s, False)"
  by (induction ps) simp_all

lemma scan_parts_found:
  "snd (scan_parts ps s) = (\<exists>q\<in>set ps. inlineData q \<noteq> None)"
  by (induction ps) (auto split: option.splits)

lemma scan_parts_error: "error (fst (scan_parts ps s)) = error s"
  by (induction ps) (auto split: option.splits)

lemma scan_parts_originalImage: "originalImage (fst (scan_parts ps s)) = originalImage s"
  by (induction ps) (auto split: option.splits)

lemma noImageMessage_nonempty: "noImageMessage \<noteq> []"
  by (simp add: noImageMessage_def)

lemma loaded_state_truthy: "js_truthy (originalImage loaded_state)"
  by (simp add: loaded_state_def initial_state_def example_image_def js_truthy_def)

lemma example_response_parts:
  "response_parts (response_of ps) = ps"
  by (simp add: response_of_def response_parts_def)

lemma prompt_split:
  "prompt q c st =
     (openingFragment q @ '' '' @ colorFragment q c @ '' '' @ styleInstruction st @ '' '')
     @ preservationInstruction @ ('' '' @ closingFragment q)"
  by (cases q)
     (simp_all add: prompt_def openingFragment_def colorFragment_def closingFragment_def)

lemma slider_position_positive_width:
  "0 < width r \<Longrightarrow>
   slider_position x r = Num (min (max ((x - left r) / width r * 100) 0) 100)"
  by (simp add: slider_position_def js_div_def js_mul_def)

subsection \<open>Restoration while a call is outstanding\<close>

text \<open>
  Claim C1, as stated, fails on \<open>handleRestore\<close>: the handler tests only
  \<open>!originalImage\<close>. Invoked in a state with \<open>isProcessing = true\<close> and an original
  image, with a client that is constructed, it makes a second \<open>generateContent\<close> call.
\<close>

theorem handleRestore_ignores_isProcessing:
  "isProcessing processing_state \<and> js_truthy (originalImage processing_state)
   \<and> handleRestore_begin None processing_state
       = (processing_state, Some (restore_request example_image processing_state))"
  by (simp add: processing_state_def loaded_state_def initial_state_def example_image_def
      handleRestore_begin_def js_truthy_def)

text \<open>
  Claim C1, amended: the gate is on the buttons. While \<open>isProcessing\<close> holds, a click on
  a button bound to \<open>handleRestore\<close> changes nothing and makes no remote call. The
  handler itself tests the original image only, not \<open>isProcessing\<close>: invoked with an
  original image present it sets \<open>isProcessing\<close> and clears the error, whatever
  \<open>isProcessing\<close> was, and then makes one remote call when the client is constructed;
  when constructing the client throws, it makes no call, the \<open>catch\<close> block reports what
  was thrown and \<open>isProcessing\<close> ends false.
\<close>

theorem restore_gate_is_the_button:
  "(isProcessing s \<longrightarrow> click_restore ctor s = (s, None))
   \<and> (originalImage s = Some img \<and> img \<noteq> [] \<longrightarrow>
        handleRestore_begin None s
          = (s\<lparr>isProcessing := True, error := None\<rparr>, Some (restore_request img s))
        \<and> handleRestore_begin (Some e) s
          = (catch_block e (s\<lparr>isProcessing := False, error := None\<rparr>), None))"
  by (cases e) (simp_all add: click_restore_def handleRestore_begin_def catch_block_def
      finally_block_def)

theorem restore_gate_is_the_button_witness:
  "click_restore None processing_state = (processing_state, None)
   \<and> handleRestore_begin None loaded_state
       = (loaded_state\<lparr>isProcessing := True, error := None\<rparr>,
          Some (restore_request example_image loaded_state))
   \<and> handleRestore_begin (Some (ThrownError (Some ''An API Key must be set''))) processing_state
       = (processing_state\<lparr>isProcessing := False, error := Some ''An API Key must be set''\<rparr>,
          None)"
proof -
  let ?e = "ThrownError (Some ''An API Key must be set'')"
  have p: "isProcessing processing_state"
    by (simp add: processing_state_def)
  have l: "originalImage loaded_state = Some example_image \<and> example_image \<noteq> []"
    by (simp add: loaded_state_def example_image_def)
  have q: "originalImage processing_state = Some example_image \<and> example_image \<noteq> []"
    by (simp add: processing_state_def loaded_state_def example_image_def)
  have c: "catch_block ?e (processing_state\<lparr>isProcessing := False, error := None\<rparr>)
      = processing_state\<lparr>isProcessing := False, error := Some ''An API Key must be set''\<rparr>"
    by (simp add: catch_block_def js_truthy_def js_string_def)
  from p l q
    restore_gate_is_the_button [where s = processing_state and img = example_image
      and ctor = None and e = ?e]
    restore_gate_is_the_button [where s = loaded_state and img = example_image
      and ctor = None and e = ?e]
  show ?thesis unfolding c [symmetric] by blast
qed

subsection \<open>Upload of a file over the size limit\<close>

text \<open>
  Claim C2: a file of more than \<open>10 * 1024 * 1024\<close> bytes is rejected. The only cell
  written is \<open>error\<close>, which receives the too-large message; the original image, the
  restored image, the processing flag and the view shown are as before, and no file is
  handed to the reader.
\<close>

theorem upload_too_large_rejected:
  "10 * 1024 * 1024 < file_size f \<Longrightarrow>
   handleFileUpload (Some f) s = (s\<lparr>error := Some tooLargeMessage\<rparr>, None)
   \<and> originalImage (fst (handleFileUpload (Some f) s)) = originalImage s
   \<and> restoredImage (fst (handleFileUpload (Some f) s)) = restoredImage s
   \<and> isProcessing (fst (handleFileUpload (Some f) s)) = isProcessing s
   \<and> upload_view (fst (handleFileUpload (Some f) s)) = upload_view s"
  by (simp add: handleFileUpload_def upload_view_def)

theorem upload_too_large_rejected_witness:
  "handleFileUpload (Some \<lparr> file_size = 15 * 1024 * 1024 \<rparr>) loaded_state
     = (loaded_state\<lparr>error := Some tooLargeMessage\<rparr>, None)"
  using upload_too_large_rejected [of "\<lparr> file_size = 15 * 1024 * 1024 \<rparr>" loaded_state]
  by simp

subsection \<open>Reset while a call is outstanding\<close>

text \<open>
  Claim C3, as stated, fails on the handlers: \<open>handleReset\<close> called in a processing state
  empties the original image, and the response that resolves afterwards is still applied:
  \<open>restoredImage\<close> is set from it.
\<close>

theorem stale_response_is_applied:
  "isProcessing processing_state
   \<and> originalImage (handleReset processing_state) = None
   \<and> restoredImage
        (handleRestore_settle (Fulfilled (response_of [image_part ''QUJD'']))
           (handleReset processing_state))
       = Some ''data:image/png;base64,QUJD''"
  by (simp add: processing_state_def loaded_state_def initial_state_def handleReset_def
      handleRestore_settle_def response_of_def response_parts_def image_part_def
      finally_block_def js_string_def)

text \<open>
  Claim C3, amended: while \<open>isProcessing\<close> holds, a click on the reset button changes
  nothing, so no reset reaches the state through the interface during a call. The handler
  \<open>handleReset\<close> itself empties the original image whatever the state and leaves
  \<open>isProcessing\<close> as it was; no stamp marks the outstanding call, and a response that
  resolves after it with an image part is applied as any other: \<open>restoredImage\<close> is set
  from its first image part and \<open>isProcessing\<close> becomes false.
\<close>

theorem reset_gate_is_the_button:
  "(isProcessing s \<longrightarrow> click_reset s = s)
   \<and> originalImage (handleReset s) = None
   \<and> isProcessing (handleReset s) = isProcessing s
   \<and> (response_parts r = pre @ p # post \<and> (\<forall>q\<in>set pre. inlineData q = None)
        \<and> inlineData p = Some b \<longrightarrow>
      handleRestore_settle (Fulfilled r) (handleReset s)
        = (handleReset s)\<lparr>restoredImage := Some (''data:image/png;base64,'' @ js_string (data b)),
                            isProcessing := False\<rparr>)"
  by (simp add: click_reset_def handleReset_def handleRestore_settle_def scan_parts_first
      finally_block_def)

theorem reset_gate_is_the_button_witness:
  "click_reset processing_state = processing_state
   \<and> handleRestore_settle (Fulfilled (response_of [text_part ''done'', image_part ''QUJD'']))
        (handleReset processing_state)
      = (handleReset processing_state)\<lparr>restoredImage := Some ''data:image/png;base64,QUJD'',
                                            isProcessing := False\<rparr>"
proof -
  let ?r = "response_of [text_part ''done'', image_part ''QUJD'']"
  have p: "isProcessing processing_state"
    by (simp add: processing_state_def)
  have d: "response_parts ?r = [text_part ''done''] @ image_part ''QUJD'' # []
      \<and> (\<forall>q\<in>set [text_part ''done'']. inlineData q = None)
      \<and> inlineData (image_part ''QUJD'')
          = Some \<lparr> data = Some ''QUJD'', mimeType = Some ''image/jpeg'' \<rparr>"
    by (simp add: example_response_parts text_part_def image_part_def)
  from p d reset_gate_is_the_button [of processing_state ?r "[text_part ''done'']"
      "image_part ''QUJD''" "[]" "\<lparr> data = Some ''QUJD'', mimeType = Some ''image/jpeg'' \<rparr>"]
  show ?thesis by (simp add: js_string_def)
qed

subsection \<open>The shape of the prompt\<close>

text \<open>
  Claim C4, as stated, fails: for the options Standard, colorized, Realistic the prompt does
  not end with the identity-preservation fragment (a closing fragment follows it), and the
  empty style fragment leaves two consecutive spaces after the colorization fragment.
\<close>

theorem prompt_not_four_fragments:
  "\<not> suffix preservationInstruction (prompt Standard True Realistic)
   \<and> styleInstruction Realistic = []
   \<and> sublist (colorInstruction True @ ''  '' @ preservationInstruction)
        (prompt Standard True Realistic)"
  by code_simp

text \<open>
  Claim C4, amended: for every choice of quality, colorization and style the prompt is five
  fragments in this order: the opening fragment of the quality tier, the colorization
  fragment, the style fragment, the identity-preservation fragment and the closing fragment
  of the quality tier, each two neighbours separated by exactly one space. Nothing is
  normalized: with the style Realistic, whose fragment is empty, two spaces stand between the
  colorization fragment and the identity-preservation fragment.
\<close>

theorem prompt_five_fragments:
  "prompt q c st
     = join_spaces [openingFragment q, colorFragment q c, styleInstruction st,
                    preservationInstruction, closingFragment q]
   \<and> prompt q c Realistic
     = openingFragment q @ '' '' @ colorFragment q c @ ''  '' @ preservationInstruction
       @ '' '' @ closingFragment q"
  by (simp add: prompt_split join_spaces_def styleInstruction_def)

subsection \<open>Reading the response\<close>

text \<open>
  Claim C5, as stated, fails: only the first candidate of a response is read. A response
  whose first candidate has a text part only and whose second candidate has an image part
  carries inline image data, and yet the invocation ends with the no-image message and
  without a restored image.
\<close>

theorem image_in_later_candidate_is_ignored:
  "candidates later_image_response
     = Some [candidate_of [text_part ''done''], candidate_of [image_part ''QUJD'']]
   \<and> inlineData (image_part ''QUJD'')
     = Some \<lparr> data = Some ''QUJD'', mimeType = Some ''image/jpeg'' \<rparr>
   \<and> handleRestore None loaded_state (Fulfilled later_image_response)
     = loaded_state\<lparr>isProcessing := False, error := Some noImageMessage\<rparr>"
  by (simp add: later_image_response_def candidate_of_def image_part_def text_part_def
      handleRestore_def handleRestore_begin_def handleRestore_settle_def response_parts_def
      loaded_state_def initial_state_def example_image_def finally_block_def catch_block_def
      js_truthy_def js_string_def noImageMessage_nonempty)

text \<open>
  Claim C5, amended: of a response only the parts of its first candidate are read,
  \<open>response.candidates?.[0]?.content?.parts || []\<close>; the other candidates are
  discarded. From a state with an original image and with a client constructed, a response
  whose first part with an \<open>inlineData\<close> object, among those parts, is \<open>p\<close> ends with
  \<open>restoredImage\<close> set to the PNG data URL of the data of \<open>p\<close>, whatever media type
  \<open>p\<close> declares and whatever the other parts are, and with no error; a response with no
  such part in its first candidate ends with the no-image message as error; that message is
  the error exactly when no part of the first candidate has an \<open>inlineData\<close> object; the
  original image is the same in every case.
\<close>

theorem restore_takes_first_image_part:
  assumes original: "js_truthy (originalImage s)"
  shows "(\<forall>pre p post b.
      response_parts r = pre @ p # post \<and> (\<forall>q\<in>set pre. inlineData q = None)
        \<and> inlineData p = Some b \<longrightarrow>
      handleRestore None s (Fulfilled r)
        = s\<lparr>restoredImage := Some (''data:image/png;base64,'' @ js_string (data b)),
             isProcessing := False, error := None\<rparr>)
   \<and> ((\<forall>q\<in>set (response_parts r). inlineData q = None) \<longrightarrow>
        handleRestore None s (Fulfilled r)
          = s\<lparr>isProcessing := False, error := Some noImageMessage\<rparr>)
   \<and> ((error (handleRestore None s (Fulfilled r)) = Some noImageMessage)
        = (\<forall>q\<in>set (response_parts r). inlineData q = None))
   \<and> originalImage (handleRestore None s (Fulfilled r)) = originalImage s
   \<and> (\<forall>c cs. candidates r = Some (c # cs) \<longrightarrow>
        handleRestore None s (Fulfilled r)
          = handleRestore None s (Fulfilled (r\<lparr>candidates := Some [c]\<rparr>)))"
proof -
  let ?s1 = "s\<lparr>isProcessing := True, error := None\<rparr>"
  let ?ps = "response_parts r"
  from original obtain img where img: "originalImage s = Some img" "img \<noteq> []"
    by (auto simp: js_truthy_def split: option.splits)
  then have run: "handleRestore None s (Fulfilled r) = handleRestore_settle (Fulfilled r) ?s1"
    by (simp add: handleRestore_def handleRestore_begin_def)
  have found: "handleRestore None s (Fulfilled r)
        = s\<lparr>restoredImage := Some (''data:image/png;base64,'' @ js_string (data b)),
             isProcessing := False, error := None\<rparr>"
    if "?ps = pre @ p # post" "\<forall>q\<in>set pre. inlineData q = None" "inlineData p = Some b"
    for pre p post b
    using that by (simp add: run handleRestore_settle_def scan_parts_first finally_block_def)
  have missing: "handleRestore None s (Fulfilled r)
        = s\<lparr>isProcessing := False, error := Some noImageMessage\<rparr>"
    if "\<forall>q\<in>set ?ps. inlineData q = None"
    using that
    by (simp add: run handleRestore_settle_def scan_parts_none finally_block_def catch_block_def
        js_truthy_def js_string_def noImageMessage_nonempty)
  have exact: "(error (handleRestore None s (Fulfilled r)) = Some noImageMessage)
        = (\<forall>q\<in>set ?ps. inlineData q = None)"
  proof (cases "\<forall>q\<in>set ?ps. inlineData q = None")
    case True
    then show ?thesis by (simp add: missing)
  next
    case False
    then have "snd (scan_parts ?ps ?s1)" by (simp add: scan_parts_found)
    moreover have "error (fst (scan_parts ?ps ?s1)) = None" by (simp add: scan_parts_error)
    ultimately have "error (handleRestore None s (Fulfilled r)) = None"
      by (cases "scan_parts ?ps ?s1") (simp add: run handleRestore_settle_def finally_block_def)
    with False show ?thesis by simp
  qed
  have "originalImage (handleRestore None s (Fulfilled r)) = originalImage s"
    using scan_parts_originalImage [of ?ps ?s1]
    by (cases "scan_parts ?ps ?s1")
       (simp add: run handleRestore_settle_def finally_block_def catch_block_def)
  moreover have "handleRestore None s (Fulfilled r)
        = handleRestore None s (Fulfilled (r\<lparr>candidates := Some [c]\<rparr>))"
    if "candidates r = Some (c # cs)" for c cs
    using that img
    by (simp add: handleRestore_def handleRestore_begin_def handleRestore_settle_def
        response_parts_def)
  ultimately show ?thesis using found missing exact by blast
qed

theorem restore_takes_first_image_part_witness:
  "handleRestore None loaded_state
       (Fulfilled (response_of [text_part ''done'', image_part ''QUJD'', image_part ''WFla'']))
     = loaded_state\<lparr>restoredImage := Some ''data:image/png;base64,QUJD'',
                       isProcessing := False, error := None\<rparr>
   \<and> handleRestore None loaded_state (Fulfilled (response_of [text_part ''done'']))
     = loaded_state\<lparr>isProcessing := False, error := Some noImageMessage\<rparr>"
proof -
  let ?r = "response_of [text_part ''done'', image_part ''QUJD'', image_part ''WFla'']"
  have d: "response_parts ?r = [text_part ''done''] @ image_part ''QUJD'' # [image_part ''WFla'']
      \<and> (\<forall>q\<in>set [text_part ''done'']. inlineData q = None)
      \<and> inlineData (image_part ''QUJD'')
          = Some \<lparr> data = Some ''QUJD'', mimeType = Some ''image/jpeg'' \<rparr>"
    by (simp add: example_response_parts text_part_def image_part_def)
  have a: "handleRestore None loaded_state (Fulfilled ?r)
     = loaded_state\<lparr>restoredImage := Some ''data:image/png;base64,QUJD'',
                       isProcessing := False, error := None\<rparr>"
    using restore_takes_first_image_part
      [OF loaded_state_truthy, of ?r, THEN conjunct1, rule_format, OF d]
    by (simp add: js_string_def)
  have "\<forall>q\<in>set (response_parts (response_of [text_part ''done''])). inlineData q = None"
    by (simp add: example_response_parts text_part_def)
  with restore_takes_first_image_part [OF loaded_state_truthy, of "response_of [text_part ''done'']"]
  have b: "handleRestore None loaded_state (Fulfilled (response_of [text_part ''done'']))
     = loaded_state\<lparr>isProcessing := False, error := Some noImageMessage\<rparr>"
    by blast
  from a b show ?thesis by simp
qed

subsection \<open>The comparison slider\<close>

text \<open>
  Claim C6: during a drag, with a container of positive width, a move event whose pointer
  is at \<open>x\<close> sets the slider position to a number between 0 and 100; to 0 when \<open>x\<close> is at
  or left of the container's left edge, to 100 when \<open>x\<close> is at or right of its right edge.
\<close>

theorem slider_position_clamped:
  "isDragging s \<Longrightarrow> 0 < width r \<Longrightarrow> event_x e = Inr x \<Longrightarrow>
   \<exists>p. onMouseMove e (Some r) s = Inr (s\<lparr>sliderPosition := Num p\<rparr>)
       \<and> 0 \<le> p \<and> p \<le> 100
       \<and> (x \<le> left r \<longrightarrow> p = 0)
       \<and> (left r + width r \<le> x \<longrightarrow> p = 100)"
proof -
  assume drag: "isDragging s" and w: "0 < width r" and x: "event_x e = Inr x"
  let ?q = "(x - left r) / width r * 100"
  let ?p = "min (max ?q 0) 100"
  have move: "onMouseMove e (Some r) s = Inr (s\<lparr>sliderPosition := Num ?p\<rparr>)"
    using drag x by (simp add: onMouseMove_def slider_position_positive_width [OF w])
  have range: "0 \<le> ?p \<and> ?p \<le> 100" by simp
  have low: "?p = 0" if "x \<le> left r"
  proof -
    from that w have "?q \<le> 0"
      by (simp add: divide_le_0_iff)
    then show ?thesis by simp
  qed
  have high: "?p = 100" if "left r + width r \<le> x"
  proof -
    from that w have "100 \<le> ?q"
      by (simp add: le_divide_eq)
    then show ?thesis by simp
  qed
  from move range low high show ?thesis by blast
qed

theorem slider_position_clamped_witness:
  "onMouseMove (TouchMove [40, 170]) (Some \<lparr> left = 100, width = 200 \<rparr>) dragging_state
     = Inr (dragging_state\<lparr>sliderPosition := Num 0\<rparr>)
   \<and> onMouseMove (MouseMove 300) (Some \<lparr> left = 100, width = 200 \<rparr>) dragging_state
     = Inr (dragging_state\<lparr>sliderPosition := Num 100\<rparr>)"
proof -
  let ?r = "\<lparr> left = 100, width = 200 \<rparr>"
  have d: "isDragging dragging_state" by (simp add: dragging_state_def)
  have w: "0 < width ?r" by simp
  have "event_x (TouchMove [40, 170]) = Inr 40" by (simp add: event_x_def)
  from slider_position_clamped [OF d w this]
  have lo: "onMouseMove (TouchMove [40, 170]) (Some ?r) dragging_state
     = Inr (dragging_state\<lparr>sliderPosition := Num 0\<rparr>)" by auto
  have "event_x (MouseMove 300) = Inr 300" by (simp add: event_x_def)
  from slider_position_clamped [OF d w this]
  have hi: "onMouseMove (MouseMove 300) (Some ?r) dragging_state
     = Inr (dragging_state\<lparr>sliderPosition := Num 100\<rparr>)" by auto
  from lo hi show ?thesis by simp
qed

text \<open>
  Claim C7, as stated, fails: \<open>onMouseMove\<close> has no test of the width. During a drag over
  a container of width 0, a pointer right of the left edge moves the position from 50 to
  100, and a pointer on the left edge sets it to \<open>NaN\<close>.
\<close>

theorem zero_width_is_not_guarded:
  "isDragging dragging_state \<and> sliderPosition dragging_state = Num 50
   \<and> onMouseMove (MouseMove 130) (Some \<lparr> left = 100, width = 0 \<rparr>) dragging_state
       = Inr (dragging_state\<lparr>sliderPosition := Num 100\<rparr>)
   \<and> onMouseMove (MouseMove 100) (Some \<lparr> left = 100, width = 0 \<rparr>) dragging_state
       = Inr (dragging_state\<lparr>sliderPosition := NaN\<rparr>)"
  by (simp add: dragging_state_def loaded_state_def initial_state_def onMouseMove_def
      event_x_def slider_position_def js_div_def js_mul_def)

text \<open>
  Claim C7, amended: when the container width is 0, a move event during a drag is not a
  no-op. With the pointer off the container's left edge the quotient is an infinity, which
  the clamp turns into a bound: the position is set to 0 for a pointer left of the edge and
  to 100 for a pointer right of it.
\<close>

theorem zero_width_moves_to_a_bound:
  "isDragging s \<Longrightarrow> width r = 0 \<Longrightarrow> event_x e = Inr x \<Longrightarrow> x \<noteq> left r \<Longrightarrow>
   onMouseMove e (Some r) s
     = Inr (s\<lparr>sliderPosition := (if x < left r then Num 0 else Num 100)\<rparr>)"
  by (simp add: onMouseMove_def slider_position_def js_div_def js_mul_def)

theorem zero_width_moves_to_a_bound_witness:
  "onMouseMove (MouseMove 130) (Some \<lparr> left = 100, width = 0 \<rparr>) dragging_state
     = Inr (dragging_state\<lparr>sliderPosition := Num 100\<rparr>)
   \<and> onMouseMove (TouchMove [70]) (Some \<lparr> left = 100, width = 0 \<rparr>) dragging_state
     = Inr (dragging_state\<lparr>sliderPosition := Num 0\<rparr>)"
proof -
  let ?r = "\<lparr> left = 100, width = 0 \<rparr>"
  have d: "isDragging dragging_state" by (simp add: dragging_state_def)
  have w: "width ?r = 0" by simp
  have a: "event_x (MouseMove 130) = Inr 130" by (simp add: event_x_def)
  have b: "event_x (TouchMove [70]) = Inr 70" by (simp add: event_x_def)
  from zero_width_moves_to_a_bound [OF d w a] zero_width_moves_to_a_bound [OF d w b]
  show ?thesis by simp
qed

subsection \<open>Reset\<close>

text \<open>
  Claim C8: \<open>handleReset\<close> has no precondition, and from every state its result has no
  original image, no restored image, no error and the slider position 50; the view shown
  is the upload area, the empty state of the workflow.
\<close>

theorem reset_clears_everything:
  "originalImage (handleReset s) = None \<and> restoredImage (handleReset s) = None
   \<and> error (handleReset s) = None \<and> sliderPosition (handleReset s) = Num 50
   \<and> upload_view (handleReset s)"
  by (simp add: handleReset_def upload_view_def js_truthy_def)

subsection \<open>The identity-preservation fragment\<close>

text \<open>
  Claim C9: for every quality, colorization and style, the prompt contains the
  identity-preservation fragment as a contiguous substring.
\<close>

theorem prompt_contains_preservation:
  "sublist preservationInstruction (prompt q c st)"
  unfolding prompt_split by (rule sublist_appendI)

subsection \<open>The processing flag after a call\<close>

text \<open>
  Claim C10: the continuation of \<open>handleRestore\<close> ends in its \<open>finally\<close> block on every
  path, so \<open>isProcessing\<close> is false after it whatever the outcome (an image, no image, a
  rejected call) and whatever the state it runs on; in particular after a whole invocation
  started with an original image present, also one whose client constructor throws.
\<close>

theorem processing_flag_cleared:
  "\<not> isProcessing (handleRestore_settle out t)
   \<and> (js_truthy (originalImage s) \<longrightarrow> \<not> isProcessing (handleRestore ctor s out))"
  by (auto simp: handleRestore_settle_def finally_block_def handleRestore_def
      handleRestore_begin_def js_truthy_def split: option.splits)

theorem processing_flag_cleared_witness:
  "\<not> isProcessing (handleRestore None loaded_state (Rejected (ThrownError (Some ''quota''))))
   \<and> \<not> isProcessing (handleRestore_settle (Rejected ThrownNullish) processing_state)
   \<and> \<not> isProcessing
         (handleRestore (Some ThrownNullish) loaded_state (Rejected (ThrownError (Some ''quota''))))"
  using loaded_state_truthy
    processing_flag_cleared [where out = "Rejected ThrownNullish" and t = processing_state
      and s = loaded_state and ctor = None]
    processing_flag_cleared [where out = "Rejected (ThrownError (Some ''quota''))"
      and t = processing_state and s = loaded_state and ctor = None]
    processing_flag_cleared [where out = "Rejected (ThrownError (Some ''quota''))"
      and t = processing_state and s = loaded_state and ctor = "Some ThrownNullish"]
  by blast

end
